theory Spec2Isabelle
  imports Main "HOL-Library.Sublist" "HOL-Library.Word"
begin

unbundle bit_operations_syntax

section \<open>yolk: an import path rewriter for Go source trees\<close>

text \<open>
  A shallow embedding of \<^verbatim>\<open>yolk.go\<close>. The program's own functions (\<^verbatim>\<open>handle\<close>,
  \<^verbatim>\<open>importPath\<close>, \<^verbatim>\<open>importName\<close>, \<^verbatim>\<open>rewriteImport\<close>, \<^verbatim>\<open>backupFile\<close>,
  \<^verbatim>\<open>initReplaceRules\<close>, \<^verbatim>\<open>exitOnErr\<close>, \<^verbatim>\<open>main\<close>) are translated one by one.
  What they call in the Go standard library and in \<^verbatim>\<open>astutil\<close> is not part of the
  program: the syntax tree operations are taken as a record of functions (\<open>golib\<close>),
  the operating system as a file store with an environment that says which system call
  fails (\<open>osenv\<close>).

  Conventions. \<^verbatim>\<open>rewriteImport\<close> is written in the stages its source goes through
  (\<open>readSource\<close>, \<open>collectReplacers\<close>, \<open>applyReplacers\<close>, \<open>render\<close>, \<open>persist\<close>), each
  citing its lines. A call that can fail returns its error as a value. The flags are
  parsed before \<^verbatim>\<open>main\<close> runs, so \<open>main\<close> takes their values as arguments and returns
  the exit status. A path is the string the program holds; the creation mask of the
  process is left out of the modes of new files; a log line is its message, without the
  date and position that the logger puts in front.
\<close>

subsection \<open>Errors, strings\<close>

datatype error = Error string

fun errorString :: "error \<Rightarrow> string" where
  "errorString (Error m) = m"

text \<open>\<^verbatim>\<open>strings.HasPrefix\<close>, \<^verbatim>\<open>strings.HasSuffix\<close>, \<^verbatim>\<open>strings.Contains\<close>,
  \<^verbatim>\<open>strings.TrimPrefix\<close>; the subject string comes first, as in Go.\<close>

definition HasPrefix :: "string \<Rightarrow> string \<Rightarrow> bool" where
  "HasPrefix s pre = prefix pre s"

definition HasSuffix :: "string \<Rightarrow> string \<Rightarrow> bool" where
  "HasSuffix s suf = suffix suf s"

definition Contains :: "string \<Rightarrow> string \<Rightarrow> bool" where
  "Contains s substr = sublist substr s"

definition TrimPrefix :: "string \<Rightarrow> string \<Rightarrow> string" where
  "TrimPrefix s pre = (if HasPrefix s pre then drop (length pre) s else s)"

subsection \<open>The syntax tree library\<close>

text \<open>\<^verbatim>\<open>ast.ImportSpec\<close>: \<^verbatim>\<open>Name\<close> is a pointer that is nil when the import has no
  alias; \<^verbatim>\<open>Path.Value\<close> is the path literal as written, quotes included.\<close>

record importSpec =
  specName :: "string option"
  specPathValue :: string

text \<open>The library functions the program calls, over the library's own tree type \<open>'ast\<close>.
  \<^verbatim>\<open>DeleteNamedImport\<close> and \<^verbatim>\<open>AddNamedImport\<close> change the tree in place and
  report success; here they return the flag and the new tree.\<close>

record 'ast golib =
  parseSource :: "string \<Rightarrow> error + 'ast"
  astImports :: "'ast \<Rightarrow> importSpec list list"
  Unquote :: "string \<Rightarrow> error + string"
  DeleteNamedImport :: "'ast \<Rightarrow> string \<Rightarrow> string \<Rightarrow> bool \<times> 'ast"
  AddNamedImport :: "'ast \<Rightarrow> string \<Rightarrow> string \<Rightarrow> bool \<times> 'ast"
  Fprint :: "'ast \<Rightarrow> error + string"
  formatSource :: "string \<Rightarrow> error + string"
  filepathDir :: "string \<Rightarrow> string"
  filepathBase :: "string \<Rightarrow> string"
  filepathJoin :: "string \<Rightarrow> string \<Rightarrow> string"

subsection \<open>The file store and the operating system\<close>

text \<open>\<^verbatim>\<open>os.FileMode\<close> is a \<^verbatim>\<open>uint32\<close>; \<^verbatim>\<open>Perm\<close> keeps its nine permission bits.\<close>

type_synonym FileMode = "32 word"

definition Perm :: "FileMode \<Rightarrow> FileMode" where
  "Perm m = m AND 0x1FF"

record osFile =
  content :: string
  mode :: FileMode

text \<open>A file store maps a path to the file stored there. Paths are compared as strings.\<close>

type_synonym filestore = "string \<Rightarrow> osFile option"

datatype osop =
    OpOpen | OpStat | OpRead | OpReadFile | OpCreate | OpChmod
  | OpWrite | OpClose | OpOpenFile | OpRename | OpRemove

text \<open>\<^verbatim>\<open>os.FileInfo\<close>, as far as \<^verbatim>\<open>handle\<close> reads it.\<close>

record fileInfo =
  infoIsDir :: bool
  infoName :: string

text \<open>The environment of one run: which system call fails on which path and with which
  error, how many bytes a failing write leaves behind, the random suffixes
  \<^verbatim>\<open>ioutil.TempFile\<close> draws, whether the platform is not Windows (\<^verbatim>\<open>chmodSupported\<close>),
  and the entries \<^verbatim>\<open>filepath.Walk\<close> presents to its callback for a root, in order.\<close>

record osenv =
  fails :: "osop \<Rightarrow> string \<Rightarrow> error option"
  written :: "string \<Rightarrow> nat"
  tempSuffix :: "nat \<Rightarrow> string"
  chmodSupported :: bool
  walkEntries :: "string \<Rightarrow> (string \<times> fileInfo \<times> error option) list"

text \<open>The program state: the file store, the lines written through package \<^verbatim>\<open>log\<close>
  (without the date and source position prefix), and the global \<^verbatim>\<open>replaceRules\<close>.
  The Go map is kept as a list of pairs; a \<^verbatim>\<open>range\<close> over it visits the pairs in
  list order.\<close>

record state =
  fsys :: filestore
  logs :: "string list"
  replaceRules :: "(string \<times> string) list"

text \<open>\<^verbatim>\<open>var replaceRules = map[string]string{}\<close>: the state a process starts in.\<close>

definition initState :: "filestore \<Rightarrow> state" where
  "initState fs = \<lparr>fsys = fs, logs = [], replaceRules = []\<rparr>"

text \<open>\<^verbatim>\<open>os.Open\<close>, \<^verbatim>\<open>f.Stat\<close>, \<^verbatim>\<open>ioutil.ReadAll\<close> on the opened file.\<close>

definition osOpen :: "osenv \<Rightarrow> filestore \<Rightarrow> string \<Rightarrow> error + osFile" where
  "osOpen env fs path =
     (case fails env OpOpen path of
        Some err \<Rightarrow> Inl err
      | None \<Rightarrow> (case fs path of
          None \<Rightarrow> Inl (Error ''no such file or directory'')
        | Some f \<Rightarrow> Inr f))"

definition fileStat :: "osenv \<Rightarrow> string \<Rightarrow> osFile \<Rightarrow> error + FileMode" where
  "fileStat env path f =
     (case fails env OpStat path of Some err \<Rightarrow> Inl err | None \<Rightarrow> Inr (mode f))"

definition ReadAll :: "osenv \<Rightarrow> string \<Rightarrow> osFile \<Rightarrow> error + string" where
  "ReadAll env path f =
     (case fails env OpRead path of Some err \<Rightarrow> Inl err | None \<Rightarrow> Inr (content f))"

text \<open>\<^verbatim>\<open>parser.ParseFile(fset, path, nil, parser.ParseComments)\<close>: with a nil source the
  parser reads the file at \<^verbatim>\<open>path\<close> itself.\<close>

definition ParseFile :: "'ast golib \<Rightarrow> osenv \<Rightarrow> filestore \<Rightarrow> string \<Rightarrow> error + 'ast" where
  "ParseFile lib env fs path =
     (case fails env OpReadFile path of
        Some err \<Rightarrow> Inl err
      | None \<Rightarrow> (case fs path of
          None \<Rightarrow> Inl (Error ''no such file or directory'')
        | Some f \<Rightarrow> parseSource lib (content f)))"

text \<open>\<^verbatim>\<open>ioutil.TempFile(dir, prefix)\<close>: up to 10000 tries, each with a fresh random
  suffix, to create \<^verbatim>\<open>dir/prefix+suffix\<close> exclusively with mode 0600; a name that
  exists is skipped, another failure is returned.\<close>

fun tempTry :: "'ast golib \<Rightarrow> osenv \<Rightarrow> filestore \<Rightarrow> string \<Rightarrow> string \<Rightarrow> nat \<Rightarrow> nat
    \<Rightarrow> error + (string \<times> filestore)" where
  "tempTry lib env fs dir pre 0 i = Inl (Error ''file exists'')"
| "tempTry lib env fs dir pre (Suc k) i =
     (let name = filepathJoin lib dir (pre @ tempSuffix env i) in
      case fs name of
        Some f \<Rightarrow> tempTry lib env fs dir pre k (Suc i)
      | None \<Rightarrow> (case fails env OpCreate name of
          Some err \<Rightarrow> Inl err
        | None \<Rightarrow> Inr (name, fs(name \<mapsto> \<lparr>content = [], mode = 0x180\<rparr>))))"

definition TempFile :: "'ast golib \<Rightarrow> osenv \<Rightarrow> filestore \<Rightarrow> string \<Rightarrow> string
    \<Rightarrow> error + (string \<times> filestore)" where
  "TempFile lib env fs dir pre = tempTry lib env fs dir pre 10000 0"

text \<open>\<^verbatim>\<open>f.Chmod\<close>, \<^verbatim>\<open>f.Write\<close> and \<^verbatim>\<open>f.Close\<close> on the backup file just created. A failing
  write leaves the first \<open>written env name\<close> bytes.\<close>

definition fileChmod :: "osenv \<Rightarrow> string \<Rightarrow> FileMode \<Rightarrow> filestore \<Rightarrow> filestore \<times> error option" where
  "fileChmod env name perm fs =
     (case fails env OpChmod name of
        Some err \<Rightarrow> (fs, Some err)
      | None \<Rightarrow> (case fs name of
          None \<Rightarrow> (fs, Some (Error ''no such file or directory''))
        | Some f \<Rightarrow> (fs(name \<mapsto> f\<lparr>mode := perm\<rparr>), None)))"

definition fileWrite :: "osenv \<Rightarrow> string \<Rightarrow> string \<Rightarrow> filestore \<Rightarrow> filestore \<times> error option" where
  "fileWrite env name data fs =
     (case fs name of
        None \<Rightarrow> (fs, Some (Error ''no such file or directory''))
      | Some f \<Rightarrow> (case fails env OpWrite name of
          Some err \<Rightarrow> (fs(name \<mapsto> f\<lparr>content := content f @ take (written env name) data\<rparr>), Some err)
        | None \<Rightarrow> (fs(name \<mapsto> f\<lparr>content := content f @ data\<rparr>), None)))"

definition fileClose :: "osenv \<Rightarrow> string \<Rightarrow> error option" where
  "fileClose env name = fails env OpClose name"

text \<open>\<^verbatim>\<open>os.Remove\<close> and \<^verbatim>\<open>os.Rename\<close>.\<close>

definition osRemove :: "osenv \<Rightarrow> string \<Rightarrow> filestore \<Rightarrow> filestore \<times> error option" where
  "osRemove env name fs =
     (case fails env OpRemove name of
        Some err \<Rightarrow> (fs, Some err)
      | None \<Rightarrow> (case fs name of
          None \<Rightarrow> (fs, Some (Error ''no such file or directory''))
        | Some f \<Rightarrow> (fs(name := None), None)))"

definition osRename :: "osenv \<Rightarrow> string \<Rightarrow> string \<Rightarrow> filestore \<Rightarrow> filestore \<times> error option" where
  "osRename env oldname newname fs =
     (case fails env OpRename oldname of
        Some err \<Rightarrow> (fs, Some err)
      | None \<Rightarrow> (case fs oldname of
          None \<Rightarrow> (fs, Some (Error ''no such file or directory''))
        | Some f \<Rightarrow> ((fs(oldname := None))(newname \<mapsto> f), None)))"

text \<open>\<^verbatim>\<open>ioutil.WriteFile(name, data, perm)\<close>: open with
  \<^verbatim>\<open>O_WRONLY|O_CREATE|O_TRUNC\<close> (an existing file keeps its mode and is emptied, a
  missing one is created with \<^verbatim>\<open>perm\<close>), write, close; the first error is returned.\<close>

definition WriteFile :: "osenv \<Rightarrow> string \<Rightarrow> string \<Rightarrow> FileMode \<Rightarrow> filestore
    \<Rightarrow> filestore \<times> error option" where
  "WriteFile env name data perm fs =
     (case fails env OpOpenFile name of
        Some err \<Rightarrow> (fs, Some err)
      | None \<Rightarrow>
         (let f = (case fs name of
                     None \<Rightarrow> \<lparr>content = [], mode = perm\<rparr>
                   | Some f0 \<Rightarrow> f0\<lparr>content := []\<rparr>);
              (fs1, err) = fileWrite env name data (fs(name \<mapsto> f));
              err1 = fileClose env name
          in (fs1, (case err of None \<Rightarrow> err1 | Some e \<Rightarrow> Some e))))"

subsection \<open>The program\<close>

text \<open>\<^verbatim>\<open>codeSuffixSkipped\<close>\<close>

definition codeSuffixSkipped :: "string list" where
  "codeSuffixSkipped = [''pb.go'', ''pb.gopherjs.go'', ''stateGen.go'', ''reactGen.go'']"

record replacer =
  name :: string
  oldPath :: string
  newPath :: string

definition importPath :: "'ast golib \<Rightarrow> importSpec \<Rightarrow> string" where
  "importPath lib s = (case Unquote lib (specPathValue s) of Inl err \<Rightarrow> [] | Inr t \<Rightarrow> t)"

definition importName :: "importSpec \<Rightarrow> string" where
  "importName s = (case specName s of None \<Rightarrow> [] | Some n \<Rightarrow> n)"

text \<open>\<^verbatim>\<open>exitOnErr\<close> logs the error; the exit status 255 is returned to the caller of
  \<open>main\<close> below.\<close>

definition exitOnErr :: "error \<Rightarrow> state \<Rightarrow> state \<times> nat" where
  "exitOnErr err s = (s\<lparr>logs := logs s @ [errorString err]\<rparr>, 255)"

text \<open>\<^verbatim>\<open>backupFile\<close>: returns the store, the backup's name and the error.\<close>

definition backupFile :: "'ast golib \<Rightarrow> osenv \<Rightarrow> string \<Rightarrow> string \<Rightarrow> FileMode \<Rightarrow> filestore
    \<Rightarrow> filestore \<times> string \<times> error option" where
  "backupFile lib env filename data perm fs =
     (case TempFile lib env fs (filepathDir lib filename) (filepathBase lib filename) of
        Inl err \<Rightarrow> (fs, [], Some err)
      | Inr (backname, fs1) \<Rightarrow>
         (case (if chmodSupported env then fileChmod env backname perm fs1 else (fs1, None)) of
            (fs2, Some err) \<Rightarrow> (fst (osRemove env backname fs2), backname, Some err)
          | (fs2, None) \<Rightarrow>
             (case fileWrite env backname data fs2 of
                (fs3, Some err) \<Rightarrow> (fs3, backname, Some err)
              | (fs3, None) \<Rightarrow>
                 (case fileClose env backname of
                    Some err \<Rightarrow> (fs3, backname, Some err)
                  | None \<Rightarrow> (fs3, backname, None)))))"

text \<open>\<^verbatim>\<open>rewriteImport\<close>, lines 122 to 148: open, stat, read, parse.\<close>

definition readSource :: "'ast golib \<Rightarrow> osenv \<Rightarrow> string \<Rightarrow> filestore
    \<Rightarrow> error + (FileMode \<times> string \<times> 'ast)" where
  "readSource lib env path fs =
     (case osOpen env fs path of
        Inl err \<Rightarrow> Inl err
      | Inr f \<Rightarrow>
         (case fileStat env path f of
            Inl err \<Rightarrow> Inl err
          | Inr m \<Rightarrow>
             (let perm = Perm m in
              case ReadAll env path f of
                Inl err \<Rightarrow> Inl err
              | Inr src \<Rightarrow>
                 (case ParseFile lib env fs path of
                    Inl err \<Rightarrow> Inl err
                  | Inr file \<Rightarrow> Inr (perm, src, file)))))"

text \<open>Lines 150 to 165: one replacer for every import and every rule whose prefix the
  import's path has.\<close>

definition matchRules :: "'ast golib \<Rightarrow> (string \<times> string) list \<Rightarrow> importSpec \<Rightarrow> replacer list" where
  "matchRules lib rules imp =
     (let impPath = importPath lib imp in
      map (\<lambda>(pre, will). \<lparr>name = importName imp, oldPath = impPath,
                           newPath = will @ TrimPrefix impPath pre\<rparr>)
          (filter (\<lambda>(pre, will). HasPrefix impPath pre) rules))"

definition collectReplacers :: "'ast golib \<Rightarrow> (string \<times> string) list \<Rightarrow> importSpec list list
    \<Rightarrow> replacer list" where
  "collectReplacers lib rules imports =
     concat (map (\<lambda>grp. concat (map (matchRules lib rules) grp)) imports)"

text \<open>Lines 167 to 177: delete the old import, add the new one, for each replacer.\<close>

fun applyReplacers :: "'ast golib \<Rightarrow> 'ast \<Rightarrow> replacer list \<Rightarrow> error + 'ast" where
  "applyReplacers lib file [] = Inr file"
| "applyReplacers lib file (r # rs) =
     (case DeleteNamedImport lib file (name r) (oldPath r) of
        (False, file1) \<Rightarrow> Inl (Error ''delete old path fails'')
      | (True, file1) \<Rightarrow>
         (case AddNamedImport lib file1 (name r) (newPath r) of
            (False, file2) \<Rightarrow> Inl (Error ''add new path fails'')
          | (True, file2) \<Rightarrow> applyReplacers lib file2 rs))"

text \<open>Lines 179 to 190: print the tree and format the text.\<close>

definition render :: "'ast golib \<Rightarrow> 'ast \<Rightarrow> error + string" where
  "render lib file =
     (case Fprint lib file of
        Inl err \<Rightarrow> Inl err
      | Inr dst \<Rightarrow> formatSource lib dst)"

text \<open>Lines 192 to 210: back the file up, overwrite it, remove the backup. The result
  of \<^verbatim>\<open>os.Rename\<close> is dropped, as in the source.\<close>

definition persist :: "'ast golib \<Rightarrow> osenv \<Rightarrow> string \<Rightarrow> string \<Rightarrow> FileMode \<Rightarrow> string \<Rightarrow> filestore
    \<Rightarrow> filestore \<times> error option" where
  "persist lib env path src perm bs fs =
     (case backupFile lib env (path @ ''.'') src perm fs of
        (fs1, backname, Some err) \<Rightarrow> (fs1, Some err)
      | (fs1, backname, None) \<Rightarrow>
         (case WriteFile env path bs perm fs1 of
            (fs2, Some err) \<Rightarrow> (fst (osRename env backname path fs2), Some err)
          | (fs2, None) \<Rightarrow> osRemove env backname fs2))"

text \<open>The body of \<^verbatim>\<open>rewriteImport\<close>: the state it leaves and the final value of its
  variable \<^verbatim>\<open>errx\<close>.\<close>

definition rewriteImportBody :: "'ast golib \<Rightarrow> osenv \<Rightarrow> string \<Rightarrow> state \<Rightarrow> state \<times> error option" where
  "rewriteImportBody lib env path s =
     (case readSource lib env path (fsys s) of
        Inl err \<Rightarrow> (s, Some err)
      | Inr (perm, src, file) \<Rightarrow>
         (let replacers = collectReplacers lib (replaceRules s) (astImports lib file) in
          case applyReplacers lib file replacers of
            Inl err \<Rightarrow> (s, Some err)
          | Inr file' \<Rightarrow>
             (case render lib file' of
                Inl err \<Rightarrow> (s, Some err)
              | Inr bs \<Rightarrow>
                 (case persist lib env path src perm bs (fsys s) of
                    (fs', errx) \<Rightarrow> (s\<lparr>fsys := fs'\<rparr>, errx)))))"

text \<open>\<^verbatim>\<open>rewriteImport\<close>: the deferred function logs \<^verbatim>\<open>errx\<close> when it is set; every
  return statement returns nil.\<close>

definition logLine :: "string \<Rightarrow> error \<Rightarrow> string" where
  "logLine path errx = ''rewrite import fails with '' @ path @ '' due to '' @ errorString errx"

definition rewriteImport :: "'ast golib \<Rightarrow> osenv \<Rightarrow> string \<Rightarrow> state \<Rightarrow> state \<times> error option" where
  "rewriteImport lib env path s =
     (case rewriteImportBody lib env path s of
        (s', Some errx) \<Rightarrow> (s'\<lparr>logs := logs s' @ [logLine path errx]\<rparr>, None)
      | (s', None) \<Rightarrow> (s', None))"

text \<open>\<^verbatim>\<open>handle\<close>, the callback of the walk.\<close>

definition handle :: "'ast golib \<Rightarrow> osenv \<Rightarrow> string \<Rightarrow> fileInfo \<Rightarrow> error option \<Rightarrow> state
    \<Rightarrow> state \<times> error option" where
  "handle lib env path info errx s =
     (case errx of
        Some e \<Rightarrow> (s, Some e)
      | None \<Rightarrow>
         if infoIsDir info then (s, None)
         else if Contains path ''vendor'' then (s, None)
         else let filename = infoName info in
           if \<not> HasSuffix filename ''.go'' then (s, None)
           else if list_ex (\<lambda>skip. HasSuffix filename skip) codeSuffixSkipped then (s, None)
           else (case rewriteImport lib env path s of
                   (s', Some err) \<Rightarrow> (s', Some err)
                 | (s', None) \<Rightarrow> (s', None)))"

text \<open>\<^verbatim>\<open>filepath.Walk\<close> calls the callback on each entry in turn and stops at the first
  error the callback returns (\<^verbatim>\<open>handle\<close> never returns \<^verbatim>\<open>SkipDir\<close>).\<close>

fun Walk :: "'ast golib \<Rightarrow> osenv \<Rightarrow> (string \<times> fileInfo \<times> error option) list \<Rightarrow> state
    \<Rightarrow> state \<times> error option" where
  "Walk lib env [] s = (s, None)"
| "Walk lib env ((path, info, errx) # es) s =
     (case handle lib env path info errx s of
        (s', Some err) \<Rightarrow> (s', Some err)
      | (s', None) \<Rightarrow> Walk lib env es s')"

definition initReplaceRules :: "string \<Rightarrow> string \<Rightarrow> state \<Rightarrow> state" where
  "initReplaceRules source dest s = s\<lparr>replaceRules := [(source, dest)]\<rparr>"

text \<open>\<^verbatim>\<open>main\<close>, with the values of the flags \<^verbatim>\<open>-d\<close>, \<^verbatim>\<open>-s\<close> and \<^verbatim>\<open>-r\<close>; it returns the
  final state and the exit status.\<close>

definition main :: "'ast golib \<Rightarrow> osenv \<Rightarrow> string \<Rightarrow> string \<Rightarrow> string \<Rightarrow> state \<Rightarrow> state \<times> nat" where
  "main lib env dir source dest s =
     (if dir = [] then exitOnErr (Error ''you must specify a directory to handle'') s
      else if source = [] \<or> dest = [] then
        exitOnErr (Error ''you must specify a source or destination import path to handle'') s
      else (case Walk lib env (walkEntries env dir) s of
              (s', Some err) \<Rightarrow> exitOnErr err s'
            | (s', None) \<Rightarrow> (s', 0)))"

subsection \<open>The specification's wording of candidate selection\<close>

fun splitOn :: "char \<Rightarrow> string \<Rightarrow> string list" where
  "splitOn c [] = [[]]"
| "splitOn c (x # xs) =
     (if x = c then [] # splitOn c xs
      else (case splitOn c xs of [] \<Rightarrow> [[x]] | w # ws \<Rightarrow> (x # w) # ws))"

text \<open>The specification selects a path when it is not a directory, no segment of the
  path is the vendored-dependency directory, the name ends in \<^verbatim>\<open>.go\<close> and in none of the
  generated-code suffixes. This definition follows the specification, not the code.\<close>

definition specCandidate :: "string \<Rightarrow> fileInfo \<Rightarrow> bool" where
  "specCandidate path info =
     (\<not> infoIsDir info \<and> ''vendor'' \<notin> set (splitOn CHR ''/'' path)
      \<and> suffix ''.go'' (infoName info)
      \<and> \<not> list_ex (\<lambda>skip. suffix skip (infoName info)) codeSuffixSkipped)"

subsection \<open>A library instance for a fragment of Go\<close>

text \<open>To run the program on concrete files, the library record is instantiated for the
  fragment of Go that consists of a package clause followed by one-line import
  declarations: \<^verbatim>\<open>import "path"\<close> or \<^verbatim>\<open>import alias "path"\<close>. On this fragment the
  printer writes one space after each keyword, one blank line after the package clause
  and one declaration per line. Paths are slash-separated and clean.\<close>

record goFile =
  pkgName :: string
  fileImports :: "importSpec list"

definition quote :: "string \<Rightarrow> string" where
  "quote s = CHR 0x22 # s @ [CHR 0x22]"

definition tokens :: "string \<Rightarrow> string list" where
  "tokens l = filter (\<lambda>w. w \<noteq> []) (splitOn CHR '' '' l)"

definition exUnquote :: "string \<Rightarrow> error + string" where
  "exUnquote s =
     (if 2 \<le> length s \<and> hd s = CHR 0x22 \<and> last s = CHR 0x22
         \<and> CHR 0x22 \<notin> set (butlast (tl s)) \<and> CHR 0x5C \<notin> set (butlast (tl s))
      then Inr (butlast (tl s)) else Inl (Error ''invalid syntax''))"

definition isLiteral :: "string \<Rightarrow> bool" where
  "isLiteral w = (case exUnquote w of Inl err \<Rightarrow> False | Inr t \<Rightarrow> True)"

fun exImportLine :: "string list \<Rightarrow> importSpec option" where
  "exImportLine [kw, p] =
     (if kw = ''import'' \<and> isLiteral p then Some \<lparr>specName = None, specPathValue = p\<rparr> else None)"
| "exImportLine [kw, a, p] =
     (if kw = ''import'' \<and> isLiteral p then Some \<lparr>specName = Some a, specPathValue = p\<rparr> else None)"
| "exImportLine ws = None"

definition exParse :: "string \<Rightarrow> error + goFile" where
  "exParse src =
     (case filter (\<lambda>ws. ws \<noteq> []) (map tokens (splitOn CHR 0x0A src)) of
        [kw, p] # ls \<Rightarrow>
          (if kw = ''package'' then
             (case those (map exImportLine ls) of
                None \<Rightarrow> Inl (Error ''syntax error'')
              | Some specs \<Rightarrow> Inr \<lparr>pkgName = p, fileImports = specs\<rparr>)
           else Inl (Error ''expected package clause''))
      | ls \<Rightarrow> Inl (Error ''expected package clause''))"

definition exSpecLine :: "importSpec \<Rightarrow> string" where
  "exSpecLine sp =
     ''import '' @ (case specName sp of None \<Rightarrow> [] | Some a \<Rightarrow> a @ '' '')
       @ specPathValue sp @ [CHR 0x0A]"

definition exPrint :: "goFile \<Rightarrow> string" where
  "exPrint f =
     ''package '' @ pkgName f @ [CHR 0x0A]
       @ (if fileImports f = [] then [] else CHR 0x0A # concat (map exSpecLine (fileImports f)))"

definition exSpecIs :: "string \<Rightarrow> string \<Rightarrow> importSpec \<Rightarrow> bool" where
  "exSpecIs nm path sp =
     (importName sp = nm
      \<and> (case exUnquote (specPathValue sp) of Inl err \<Rightarrow> [] | Inr t \<Rightarrow> t) = path)"

text \<open>\<^verbatim>\<open>DeleteNamedImport\<close> removes the imports with this name and path and reports
  whether there was one; \<^verbatim>\<open>AddNamedImport\<close> reports false when the file has such an
  import already and adds the import otherwise.\<close>

definition exDelete :: "goFile \<Rightarrow> string \<Rightarrow> string \<Rightarrow> bool \<times> goFile" where
  "exDelete f nm path =
     (list_ex (exSpecIs nm path) (fileImports f),
      f\<lparr>fileImports := filter (\<lambda>sp. \<not> exSpecIs nm path sp) (fileImports f)\<rparr>)"

definition exAdd :: "goFile \<Rightarrow> string \<Rightarrow> string \<Rightarrow> bool \<times> goFile" where
  "exAdd f nm path =
     (if list_ex (exSpecIs nm path) (fileImports f) then (False, f)
      else (True, f\<lparr>fileImports := fileImports f
              @ [\<lparr>specName = (if nm = [] then None else Some nm),
                  specPathValue = quote path\<rparr>]\<rparr>))"

definition exFormat :: "string \<Rightarrow> error + string" where
  "exFormat src = (case exParse src of Inl err \<Rightarrow> Inl err | Inr f \<Rightarrow> Inr (exPrint f))"

definition exDir :: "string \<Rightarrow> string" where
  "exDir p =
     (if CHR ''/'' \<in> set p then rev (tl (dropWhile (\<lambda>c. c \<noteq> CHR ''/'') (rev p)))
      else ''.'')"

definition exBase :: "string \<Rightarrow> string" where
  "exBase p = rev (takeWhile (\<lambda>c. c \<noteq> CHR ''/'') (rev p))"

definition exJoin :: "string \<Rightarrow> string \<Rightarrow> string" where
  "exJoin d n = (if d = ''.'' then n else d @ ''/'' @ n)"

definition exLib :: "goFile golib" where
  "exLib = \<lparr>parseSource = exParse, astImports = (\<lambda>f. [fileImports f]), Unquote = exUnquote,
            DeleteNamedImport = exDelete, AddNamedImport = exAdd,
            Fprint = (\<lambda>f. Inr (exPrint f)), formatSource = exFormat,
            filepathDir = exDir, filepathBase = exBase, filepathJoin = exJoin\<rparr>"





text \<open>An environment with the given faults and walk entries, on a platform with
  \<^verbatim>\<open>chmod\<close> or without.\<close>

definition exEnv :: "(osop \<Rightarrow> string \<Rightarrow> error option) \<Rightarrow> bool
    \<Rightarrow> (string \<times> fileInfo \<times> error option) list \<Rightarrow> osenv" where
  "exEnv flt chm entries =
     \<lparr>fails = flt, written = (\<lambda>p. 0), tempSuffix = (\<lambda>i. replicate (Suc i) CHR ''7''),
      chmodSupported = chm, walkEntries = (\<lambda>root. entries)\<rparr>"

definition noFault :: "osop \<Rightarrow> string \<Rightarrow> error option" where
  "noFault op p = None"

definition faultsAt :: "(osop \<times> string) list \<Rightarrow> osop \<Rightarrow> string \<Rightarrow> error option" where
  "faultsAt l op p = (if (op, p) \<in> set l then Some (Error ''input/output error'') else None)"

definition regularFile :: "string \<Rightarrow> fileInfo" where
  "regularFile n = \<lparr>infoIsDir = False, infoName = n\<rparr>"

definition directory :: "string \<Rightarrow> fileInfo" where
  "directory n = \<lparr>infoIsDir = True, infoName = n\<rparr>"

text \<open>A store with one file of mode 0644.\<close>

definition oneFile :: "string \<Rightarrow> string \<Rightarrow> filestore" where
  "oneFile p c = (\<lambda>q. if q = p then Some \<lparr>content = c, mode = 0x1A4\<rparr> else None)"

definition exSrc :: string where
  "exSrc = ''package p\<newline>\<newline>import x '' @ quote ''github.com/foo/bar/sub'' @ ''\<newline>''"


text \<open>A file whose import does not match the rule and is not formatted as \<^verbatim>\<open>gofmt\<close>
  would (two spaces after the keyword), the same file formatted, and \<open>exSrc\<close> with its
  import rewritten.\<close>

definition untidySrc :: string where
  "untidySrc = ''package p\<newline>\<newline>import  '' @ quote ''fmt'' @ ''\<newline>''"

definition tidySrc :: string where
  "tidySrc = ''package p\<newline>\<newline>import '' @ quote ''fmt'' @ ''\<newline>''"

definition newSrc :: string where
  "newSrc = ''package p\<newline>\<newline>import x '' @ quote ''example.com/baz/sub'' @ ''\<newline>''"



text \<open>The walk of a directory that holds the one file \<^verbatim>\<open>a.go\<close>.\<close>

definition exWalk :: "(string \<times> fileInfo \<times> error option) list" where
  "exWalk = [(''.'', directory ''.'', None), (''a.go'', regularFile ''a.go'', None)]"

text \<open>An environment in which the write to \<^verbatim>\<open>a.go\<close> fails, and so does the rename of
  its backup.\<close>

definition brokenEnv :: osenv where
  "brokenEnv = exEnv (faultsAt [(OpWrite, ''a.go''), (OpRename, ''a.go.7'')]) True []"

subsection \<open>Notions for two runs in succession\<close>





section \<open>Properties\<close>

subsection \<open>What every step preserves\<close>


lemma rewriteImportBody_rules:
  "replaceRules (fst (rewriteImportBody lib env path s)) = replaceRules s"
  by (simp add: rewriteImportBody_def Let_def split: sum.splits prod.splits)

lemma rewriteImport_nil: "snd (rewriteImport lib env path s) = None"
  by (simp add: rewriteImport_def split: prod.splits option.splits)

lemma rewriteImport_rules: "replaceRules (fst (rewriteImport lib env path s)) = replaceRules s"
  using rewriteImportBody_rules [of lib env path s]
  by (auto simp add: rewriteImport_def split: prod.splits option.splits)


lemma rewriteImport_fsys:
  "fsys (fst (rewriteImport lib env path s)) = fsys (fst (rewriteImportBody lib env path s))"
  by (auto simp add: rewriteImport_def split: prod.splits option.splits)


lemma handle_rules: "replaceRules (fst (handle lib env path info errx s)) = replaceRules s"
  using rewriteImport_rules [of lib env path s]
  by (auto simp add: handle_def Let_def split: option.splits prod.splits)

lemma Walk_rules: "replaceRules (fst (Walk lib env es s)) = replaceRules s"
proof (induction es arbitrary: s)
  case Nil
  show ?case by simp
next
  case (Cons e es)
  obtain path info errx where e: "e = (path, info, errx)" by (cases e)
  show ?case
    using Cons.IH [of "fst (handle lib env path info errx s)"]
      handle_rules [of lib env path info errx s]
    by (auto simp add: e split: prod.splits option.splits)
qed

lemma collectReplacers_no_rules: "collectReplacers lib [] imports = []"
  by (simp add: collectReplacers_def matchRules_def)

subsection \<open>The walk\<close>


lemma Walk_stop:
  "Walk lib env ((path, info, Some err) # es) s = (s, Some err)"
  by (simp add: handle_def)



lemma rewriteImportBody_errx:
  "snd (rewriteImportBody lib env path s) =
     (case readSource lib env path (fsys s) of
        Inl err \<Rightarrow> Some err
      | Inr (perm, src, file) \<Rightarrow>
         (case applyReplacers lib file
                 (collectReplacers lib (replaceRules s) (astImports lib file)) of
            Inl err \<Rightarrow> Some err
          | Inr file' \<Rightarrow>
             (case render lib file' of
                Inl err \<Rightarrow> Some err
              | Inr bs \<Rightarrow> snd (persist lib env path src perm bs (fsys s)))))"
  by (simp add: rewriteImportBody_def Let_def split: sum.splits prod.splits)

subsection \<open>The rule map during a run\<close>

text \<open>Claim C2. \<^verbatim>\<open>main\<close> never calls \<^verbatim>\<open>initReplaceRules\<close>: started in the initial
  state, where \<^verbatim>\<open>replaceRules\<close> is the empty map, a run ends with the empty map, the map
  is empty after any number \<open>n\<close> of walk entries, and in each of these states no import
  of any parsed file yields a replacer, so the loop over the replacers leaves the tree
  as parsed. The flags \<^verbatim>\<open>-s\<close> and \<^verbatim>\<open>-r\<close> do not enter.\<close>

theorem replaceRules_stays_empty:
  "replaceRules (fst (main lib env dir source dest (initState fs))) = []
   \<and> replaceRules (fst (Walk lib env (take n (walkEntries env dir)) (initState fs))) = []
   \<and> collectReplacers lib
        (replaceRules (fst (Walk lib env (take n (walkEntries env dir)) (initState fs))))
        (astImports lib file) = []
   \<and> applyReplacers lib file (collectReplacers lib
        (replaceRules (fst (Walk lib env (take n (walkEntries env dir)) (initState fs))))
        (astImports lib file)) = Inr file"
proof -
  have w: "replaceRules (fst (Walk lib env es (initState fs))) = []" for es
    by (simp add: Walk_rules initState_def)
  have "replaceRules (fst (main lib env dir source dest (initState fs))) = []"
    using w [of "walkEntries env dir"]
    by (auto simp add: main_def exitOnErr_def initState_def split: prod.splits option.splits)
  then show ?thesis
    by (simp add: w collectReplacers_no_rules)
qed

subsection \<open>Candidate selection\<close>

text \<open>Claim C4, as the specification states it, fails: \<^verbatim>\<open>handle\<close> tests whether the
  whole path contains the text \<^verbatim>\<open>vendor\<close>, not whether a segment of the path is that
  directory. The file \<^verbatim>\<open>pkg/vendors.go\<close> meets the four conditions of the
  specification, and \<^verbatim>\<open>handle\<close> leaves the state as it is, where \<^verbatim>\<open>rewriteImport\<close>
  on this path would not (the file is missing here, which it would log).\<close>

theorem vendor_substring_counterexample:
  "specCandidate ''pkg/vendors.go'' (regularFile ''vendors.go'')
   \<and> handle exLib (exEnv noFault True []) ''pkg/vendors.go'' (regularFile ''vendors.go'') None
        (initState (\<lambda>p. None)) = (initState (\<lambda>p. None), None)
   \<and> rewriteImport exLib (exEnv noFault True []) ''pkg/vendors.go'' (initState (\<lambda>p. None))
        \<noteq> (initState (\<lambda>p. None), None)"
  apply (intro conjI)
    apply (simp add: specCandidate_def regularFile_def codeSuffixSkipped_def suffix_to_prefix)
   apply (simp add: handle_def regularFile_def Contains_def sublist_code)
  apply (simp add: rewriteImport_def rewriteImportBody_def readSource_def osOpen_def exEnv_def
      noFault_def initState_def)
  done

text \<open>Claim C4, amended. An entry that the walk presents without an error is passed to
  \<^verbatim>\<open>rewriteImport\<close> if and only if it is not a directory, its path does not contain the
  text \<^verbatim>\<open>vendor\<close> anywhere, its name ends in \<^verbatim>\<open>.go\<close>, and its name ends in none of
  \<^verbatim>\<open>pb.go\<close>, \<^verbatim>\<open>pb.gopherjs.go\<close>, \<^verbatim>\<open>stateGen.go\<close>, \<^verbatim>\<open>reactGen.go\<close>; any other entry
  leaves the state unchanged.\<close>

theorem handle_selects:
  "handle lib env path info None s =
     (if \<not> infoIsDir info \<and> \<not> sublist ''vendor'' path \<and> suffix ''.go'' (infoName info)
         \<and> \<not> suffix ''pb.go'' (infoName info) \<and> \<not> suffix ''pb.gopherjs.go'' (infoName info)
         \<and> \<not> suffix ''stateGen.go'' (infoName info) \<and> \<not> suffix ''reactGen.go'' (infoName info)
      then rewriteImport lib env path s else (s, None))"
  using rewriteImport_nil [of lib env path s]
  by (auto simp add: handle_def Let_def codeSuffixSkipped_def HasSuffix_def Contains_def
      split: prod.splits option.splits)

subsection \<open>Failures of one file and the exit status\<close>


subsection \<open>The file store after each stage\<close>

lemma tempTry_fresh:
  "tempTry lib env fs dir pre k i = Inr (bn, fs1) \<Longrightarrow>
     fs bn = None \<and> fs1 = fs(bn \<mapsto> \<lparr>content = [], mode = 0x180\<rparr>)"
  by (induction k arbitrary: i) (auto simp add: Let_def split: option.splits)

lemma TempFile_fresh:
  "TempFile lib env fs dir pre = Inr (bn, fs1) \<Longrightarrow>
     fs bn = None \<and> fs1 = fs(bn \<mapsto> \<lparr>content = [], mode = 0x180\<rparr>)"
  unfolding TempFile_def by (rule tempTry_fresh)

lemma TempFile_first:
  assumes "fs (filepathJoin lib dir (pre @ tempSuffix env 0)) = None"
    and "fails env OpCreate (filepathJoin lib dir (pre @ tempSuffix env 0)) = None"
  shows "TempFile lib env fs dir pre =
     Inr (filepathJoin lib dir (pre @ tempSuffix env 0),
          fs(filepathJoin lib dir (pre @ tempSuffix env 0) \<mapsto> \<lparr>content = [], mode = 0x180\<rparr>))"
proof -
  have n: "(10000::nat) = Suc 9999" by simp
  have s: "tempTry lib env fs dir pre (Suc k) 0 =
     Inr (filepathJoin lib dir (pre @ tempSuffix env 0),
          fs(filepathJoin lib dir (pre @ tempSuffix env 0) \<mapsto> \<lparr>content = [], mode = 0x180\<rparr>))"
    for k using assms by (simp add: Let_def)
  show ?thesis
    unfolding TempFile_def n by (rule s)
qed

lemma readSource_ok:
  "readSource lib env path fs = Inr (perm, src, file) \<Longrightarrow>
     \<exists>f. fs path = Some f \<and> perm = Perm (mode f) \<and> src = content f
          \<and> parseSource lib (content f) = Inr file"
  by (auto simp add: readSource_def osOpen_def fileStat_def ReadAll_def ParseFile_def Let_def
      split: option.splits sum.splits)

lemma backupFile_ok:
  "backupFile lib env filename data perm fs = (fs3, bn, None) \<Longrightarrow>
     fs bn = None
     \<and> fs3 = fs(bn \<mapsto> \<lparr>content = data, mode = (if chmodSupported env then perm else 0x180)\<rparr>)"
  by (auto simp add: backupFile_def fileChmod_def fileWrite_def fileClose_def
      dest!: TempFile_fresh split: sum.splits prod.splits option.splits if_splits)

lemma backupFile_frame:
  "backupFile lib env filename data perm fs = (fs3, bn, r) \<Longrightarrow> fs p \<noteq> None \<Longrightarrow> fs3 p = fs p"
  by (auto simp add: backupFile_def fileChmod_def fileWrite_def fileClose_def osRemove_def
      dest!: TempFile_fresh split: sum.splits prod.splits option.splits if_splits)

text \<open>What \<^verbatim>\<open>backupFile\<close> leaves when the temporary file was created: nothing after a
  failed \<^verbatim>\<open>Chmod\<close> (if the removal works), the file with the bytes written so far after
  a failed \<^verbatim>\<open>Write\<close>, the whole copy after a failed \<^verbatim>\<open>Close\<close>.\<close>

lemma backupFile_created:
  assumes "TempFile lib env fs (filepathDir lib filename) (filepathBase lib filename) = Inr (bn, fs1)"
  shows "backupFile lib env filename data perm fs =
     (if chmodSupported env \<and> fails env OpChmod bn \<noteq> None
      then (if fails env OpRemove bn = None then fs else fs1, bn, fails env OpChmod bn)
      else if fails env OpWrite bn \<noteq> None
      then (fs(bn \<mapsto> \<lparr>content = take (written env bn) data,
                       mode = (if chmodSupported env then perm else 0x180)\<rparr>),
            bn, fails env OpWrite bn)
      else (fs(bn \<mapsto> \<lparr>content = data, mode = (if chmodSupported env then perm else 0x180)\<rparr>),
            bn, fails env OpClose bn))"
proof -
  from TempFile_fresh [OF assms] have fresh: "fs bn = None"
    and fs1: "fs1 = fs(bn \<mapsto> \<lparr>content = [], mode = 0x180\<rparr>)" by simp_all
  have rm: "fs1(bn := None) = fs" using fresh fs1 by (auto simp add: fun_eq_iff)
  show ?thesis
    using rm by (auto simp add: backupFile_def assms fs1 fileChmod_def fileWrite_def fileClose_def osRemove_def
        split: option.splits)
qed

lemma WriteFile_ok:
  "WriteFile env path bs perm fs = (fs2, None) \<Longrightarrow> fs path = Some f \<Longrightarrow>
     fs2 = fs(path \<mapsto> f\<lparr>content := bs\<rparr>)"
  by (auto simp add: WriteFile_def fileWrite_def fileClose_def Let_def
      split: prod.splits option.splits)

lemma WriteFile_frame:
  "WriteFile env path bs perm fs = (fs2, r) \<Longrightarrow> p \<noteq> path \<Longrightarrow> fs2 p = fs p"
  by (auto simp add: WriteFile_def fileWrite_def fileClose_def Let_def
      split: prod.splits option.splits)

lemma persist_ok:
  assumes "persist lib env path src perm bs fs = (fs', None)" and "fs path = Some f"
  shows "fs' = fs(path \<mapsto> f\<lparr>content := bs\<rparr>)"
proof -
  obtain fs1 bn where b: "backupFile lib env (path @ ''.'') src perm fs = (fs1, bn, None)"
    using assms(1) by (auto simp add: persist_def split: prod.splits option.splits)
  define m where "m = (if chmodSupported env then perm else 0x180)"
  from backupFile_ok [OF b] have
    fresh: "fs bn = None" and fs1: "fs1 = fs(bn \<mapsto> \<lparr>content = src, mode = m\<rparr>)"
    by (simp_all add: m_def)
  from fresh assms(2) have ne: "bn \<noteq> path" by auto
  obtain fs2 where w: "WriteFile env path bs perm fs1 = (fs2, None)"
    and r: "osRemove env bn fs2 = (fs', None)"
    using assms(1) b by (auto simp add: persist_def split: prod.splits option.splits)
  have "fs1 path = Some f" using fs1 ne assms(2) by simp
  from WriteFile_ok [OF w this] have fs2: "fs2 = fs1(path \<mapsto> f\<lparr>content := bs\<rparr>)" .
  from r have "fs' = fs2(bn := None)"
    by (auto simp add: osRemove_def split: option.splits)
  with fs2 fs1 fresh ne show ?thesis
    by (auto simp add: fun_eq_iff)
qed

lemma persist_restore:
  assumes b: "backupFile lib env (path @ ''.'') src perm fs = (fs1, bn, None)"
    and w: "WriteFile env path bs perm fs1 = (fs2, Some err)"
    and r: "fails env OpRename bn = None"
    and f: "fs path \<noteq> None"
  shows "persist lib env path src perm bs fs =
     (fs(path \<mapsto> \<lparr>content = src, mode = (if chmodSupported env then perm else 0x180)\<rparr>), Some err)"
proof -
  define m where "m = (if chmodSupported env then perm else 0x180)"
  from backupFile_ok [OF b] have
    fresh: "fs bn = None" and fs1: "fs1 = fs(bn \<mapsto> \<lparr>content = src, mode = m\<rparr>)"
    by (simp_all add: m_def)
  from fresh f have ne: "bn \<noteq> path" by auto
  from WriteFile_frame [OF w ne] fs1 have bk: "fs2 bn = Some \<lparr>content = src, mode = m\<rparr>" by simp
  have other: "fs2 p = fs p" if "p \<noteq> path" "p \<noteq> bn" for p
    using WriteFile_frame [OF w that(1)] fs1 that(2) by simp
  have "fst (osRename env bn path fs2) = fs(path \<mapsto> \<lparr>content = src, mode = m\<rparr>)"
    using bk other fresh ne by (auto simp add: osRename_def r fun_eq_iff)
  then show ?thesis
    by (simp add: persist_def b w m_def)
qed


lemma rewriteImportBody_persist:
  assumes "readSource lib env path (fsys s) = Inr (perm, src, tree)"
    and "applyReplacers lib tree
           (collectReplacers lib (replaceRules s) (astImports lib tree)) = Inr tree'"
    and "render lib tree' = Inr bs"
  shows "rewriteImportBody lib env path s =
     (s\<lparr>fsys := fst (persist lib env path src perm bs (fsys s))\<rparr>,
      snd (persist lib env path src perm bs (fsys s)))"
  using assms by (simp add: rewriteImportBody_def split: prod.splits)

subsection \<open>A failed substitution\<close>



subsection \<open>Permission bits\<close>

text \<open>Claim C9. When the body of \<^verbatim>\<open>rewriteImport\<close> ends without an error, the file at
  the path has the permission bits it had before.\<close>

theorem permission_bits_kept:
  assumes "snd (rewriteImportBody lib env path s) = None"
  shows "\<exists>f f'. fsys s path = Some f \<and> fsys (fst (rewriteImport lib env path s)) path = Some f'
           \<and> Perm (mode f') = Perm (mode f)"
proof -
  obtain perm src tree where rs: "readSource lib env path (fsys s) = Inr (perm, src, tree)"
    using assms by (auto simp add: rewriteImportBody_def split: sum.splits)
  from readSource_ok [OF rs] obtain f where f: "fsys s path = Some f" by blast
  obtain bs fs' where p: "persist lib env path src perm bs (fsys s) = (fs', None)"
    and s': "fst (rewriteImportBody lib env path s) = s\<lparr>fsys := fs'\<rparr>"
    using assms rs by (auto simp add: rewriteImportBody_def Let_def split: sum.splits prod.splits)
  from persist_ok [OF p f] s' have "fsys (fst (rewriteImportBody lib env path s)) path = Some (f\<lparr>content := bs\<rparr>)"
    by simp
  with f show ?thesis by (simp add: rewriteImport_fsys)
qed

theorem permission_bits_kept_witness:
  "snd (rewriteImportBody exLib (exEnv noFault True []) ''a.go'' (initState (oneFile ''a.go'' exSrc))) = None
   \<and> (\<exists>f f'. fsys (initState (oneFile ''a.go'' exSrc)) ''a.go'' = Some f
        \<and> fsys (fst (rewriteImport exLib (exEnv noFault True []) ''a.go''
              (initState (oneFile ''a.go'' exSrc)))) ''a.go'' = Some f'
        \<and> Perm (mode f') = Perm (mode f))"
proof -
  have h: "snd (rewriteImportBody exLib (exEnv noFault True []) ''a.go'' (initState (oneFile ''a.go'' exSrc))) = None"
    by code_simp
  show ?thesis
    using h permission_bits_kept [OF h] by simp
qed

subsection \<open>A backup that fails after its file was created\<close>

text \<open>Claim C10. When the file was read, parsed, rewritten and formatted, the temporary
  file of the backup was created, \<^verbatim>\<open>Chmod\<close> did not fail, and the write to the backup or
  its close fails, then the run of \<^verbatim>\<open>rewriteImport\<close> ends with an error and leaves the
  backup file, which did not exist before, on disk with a prefix of the original bytes;
  the target is untouched. (By \<open>backupFile_created\<close> the file is removed only after a
  failed \<^verbatim>\<open>Chmod\<close>.)\<close>

theorem failed_backup_left_behind:
  assumes rd: "readSource lib env path (fsys s) = Inr (perm, src, tree)"
    and ap: "applyReplacers lib tree
           (collectReplacers lib (replaceRules s) (astImports lib tree)) = Inr tree'"
    and re: "render lib tree' = Inr bs"
    and tf: "TempFile lib env (fsys s) (filepathDir lib (path @ ''.''))
           (filepathBase lib (path @ ''.'')) = Inr (bn, fs1)"
    and ch: "\<not> (chmodSupported env \<and> fails env OpChmod bn \<noteq> None)"
    and wc: "fails env OpWrite bn \<noteq> None \<or> fails env OpClose bn \<noteq> None"
  shows "fsys s bn = None
     \<and> snd (rewriteImportBody lib env path s) \<noteq> None
     \<and> (\<exists>f. fsys (fst (rewriteImport lib env path s)) bn = Some f \<and> prefix (content f) src)
     \<and> fsys (fst (rewriteImport lib env path s)) path = fsys s path"
proof -
  from TempFile_fresh [OF tf] have fresh: "fsys s bn = None" by simp
  from readSource_ok [OF rd] obtain f where f: "fsys s path = Some f" by blast
  with fresh have ne: "bn \<noteq> path" by auto
  have "take n src = src \<or> prefix (take n src) src" for n
    by (simp add: take_is_prefix)
  show ?thesis
    using fresh ne ch wc
    by (auto simp add: rewriteImport_fsys rewriteImportBody_persist [OF rd ap re] persist_def
        backupFile_created [OF tf] take_is_prefix)
qed

theorem failed_backup_left_behind_witness:
  "TempFile exLib (exEnv (faultsAt [(OpWrite, ''a.go.7'')]) True []) (oneFile ''a.go'' exSrc)
       (filepathDir exLib ''a.go.'') (filepathBase exLib ''a.go.'')
     = Inr (''a.go.7'', (oneFile ''a.go'' exSrc)(''a.go.7'' \<mapsto> \<lparr>content = [], mode = 0x180\<rparr>))
   \<and> fsys (initState (oneFile ''a.go'' exSrc)) ''a.go.7'' = None
   \<and> snd (rewriteImportBody exLib (exEnv (faultsAt [(OpWrite, ''a.go.7'')]) True []) ''a.go''
        (initState (oneFile ''a.go'' exSrc))) \<noteq> None
   \<and> (\<exists>f. fsys (fst (rewriteImport exLib (exEnv (faultsAt [(OpWrite, ''a.go.7'')]) True [])
               ''a.go'' (initState (oneFile ''a.go'' exSrc)))) ''a.go.7'' = Some f
          \<and> prefix (content f) exSrc)"
proof -
  let ?env = "exEnv (faultsAt [(OpWrite, ''a.go.7'')]) True []"
  let ?s = "initState (oneFile ''a.go'' exSrc)"
  let ?tree = "\<lparr>pkgName = ''p'',
     fileImports = [\<lparr>specName = Some ''x'', specPathValue = quote ''github.com/foo/bar/sub''\<rparr>]\<rparr>"
  have fs: "fsys ?s = oneFile ''a.go'' exSrc" by (simp add: initState_def)
  have rd: "readSource exLib ?env ''a.go'' (fsys ?s) = Inr (0x1A4, exSrc, ?tree)"
    by code_simp
  have ap: "applyReplacers exLib ?tree (collectReplacers exLib (replaceRules ?s) (astImports exLib ?tree))
      = Inr ?tree"
    by code_simp
  have re: "render exLib ?tree = Inr exSrc"
    by code_simp
  have tf: "TempFile exLib ?env (fsys ?s) (filepathDir exLib (''a.go'' @ ''.''))
       (filepathBase exLib (''a.go'' @ ''.''))
     = Inr (''a.go.7'', (oneFile ''a.go'' exSrc)(''a.go.7'' \<mapsto> \<lparr>content = [], mode = 0x180\<rparr>))"
    using TempFile_first [of "fsys ?s" exLib "filepathDir exLib (''a.go'' @ ''.'')"
        "filepathBase exLib (''a.go'' @ ''.'')" ?env]
    by (simp add: initState_def oneFile_def exEnv_def faultsAt_def exLib_def exDir_def exBase_def exJoin_def)
  have ch: "\<not> (chmodSupported ?env \<and> fails ?env OpChmod ''a.go.7'' \<noteq> None)"
    by (simp add: exEnv_def faultsAt_def)
  have wc: "fails ?env OpWrite ''a.go.7'' \<noteq> None \<or> fails ?env OpClose ''a.go.7'' \<noteq> None"
    by (simp add: exEnv_def faultsAt_def)
  show ?thesis
    using tf failed_backup_left_behind [OF rd ap re tf ch wc]
    by (simp add: fs)
qed

subsection \<open>A failed overwrite\<close>

text \<open>Claim C5, as stated, fails: \<^verbatim>\<open>rewriteImport\<close> drops the result of
  \<^verbatim>\<open>os.Rename\<close>. Here the backup of \<^verbatim>\<open>a.go\<close> is created as \<^verbatim>\<open>a.go.7\<close>, the
  overwrite fails after the file was truncated, and the rename fails too: the target is
  left empty and the backup stays under its temporary name.\<close>

theorem failed_restore_counterexample:
  "snd (backupFile exLib brokenEnv ''a.go.'' exSrc 0x1A4 (oneFile ''a.go'' exSrc)) = (''a.go.7'', None)
   \<and> snd (WriteFile brokenEnv ''a.go'' exSrc 0x1A4
           (fst (backupFile exLib brokenEnv ''a.go.'' exSrc 0x1A4 (oneFile ''a.go'' exSrc)))) \<noteq> None
   \<and> map_option content (oneFile ''a.go'' exSrc ''a.go'') = Some exSrc
   \<and> map_option content
         (fsys (fst (rewriteImport exLib brokenEnv ''a.go'' (initState (oneFile ''a.go'' exSrc))))
            ''a.go'') = Some []
   \<and> map_option content
         (fsys (fst (rewriteImport exLib brokenEnv ''a.go'' (initState (oneFile ''a.go'' exSrc))))
            ''a.go.7'') = Some exSrc"
  by code_simp

text \<open>Claim C5, amended. When the backup was created, the overwrite fails and the rename
  of the backup onto the target succeeds, the run ends with the error of the overwrite,
  the target holds the bytes it held before the run, and no file is left at the
  backup's name.\<close>

theorem failed_write_restores:
  assumes rd: "readSource lib env path (fsys s) = Inr (perm, src, tree)"
    and ap: "applyReplacers lib tree
           (collectReplacers lib (replaceRules s) (astImports lib tree)) = Inr tree'"
    and re: "render lib tree' = Inr bs"
    and bk: "backupFile lib env (path @ ''.'') src perm (fsys s) = (fs1, bn, None)"
    and wf: "WriteFile env path bs perm fs1 = (fs2, Some err)"
    and rn: "fails env OpRename bn = None"
  shows "snd (rewriteImportBody lib env path s) = Some err
     \<and> (\<exists>f f'. fsys s path = Some f
           \<and> fsys (fst (rewriteImport lib env path s)) path = Some f'
           \<and> content f' = content f)
     \<and> fsys (fst (rewriteImport lib env path s)) bn = None"
proof -
  from readSource_ok [OF rd] obtain f where f: "fsys s path = Some f" and src: "src = content f"
    by blast
  from backupFile_ok [OF bk] have fresh: "fsys s bn = None" by simp
  with f have ne: "bn \<noteq> path" by auto
  have "fsys s path \<noteq> None" using f by simp
  from persist_restore [OF bk wf rn this] f src fresh ne show ?thesis
    by (simp add: rewriteImport_fsys rewriteImportBody_persist [OF rd ap re])
qed

theorem failed_write_restores_witness:
  "backupFile exLib (exEnv (faultsAt [(OpWrite, ''a.go'')]) True []) (''a.go'' @ ''.'') exSrc 0x1A4
       (fsys (initState (oneFile ''a.go'' exSrc)))
     = ((oneFile ''a.go'' exSrc)(''a.go.7'' \<mapsto> \<lparr>content = exSrc, mode = 0x1A4\<rparr>), ''a.go.7'', None)
   \<and> snd (rewriteImportBody exLib (exEnv (faultsAt [(OpWrite, ''a.go'')]) True []) ''a.go''
         (initState (oneFile ''a.go'' exSrc))) = Some (Error ''input/output error'')
   \<and> (\<exists>f f'. fsys (initState (oneFile ''a.go'' exSrc)) ''a.go'' = Some f
         \<and> fsys (fst (rewriteImport exLib (exEnv (faultsAt [(OpWrite, ''a.go'')]) True []) ''a.go''
                 (initState (oneFile ''a.go'' exSrc)))) ''a.go'' = Some f'
         \<and> content f' = content f)
   \<and> fsys (fst (rewriteImport exLib (exEnv (faultsAt [(OpWrite, ''a.go'')]) True []) ''a.go''
         (initState (oneFile ''a.go'' exSrc)))) ''a.go.7'' = None"
proof -
  let ?env = "exEnv (faultsAt [(OpWrite, ''a.go'')]) True []"
  let ?s = "initState (oneFile ''a.go'' exSrc)"
  let ?tree = "\<lparr>pkgName = ''p'',
     fileImports = [\<lparr>specName = Some ''x'', specPathValue = quote ''github.com/foo/bar/sub''\<rparr>]\<rparr>"
  let ?fs1 = "(oneFile ''a.go'' exSrc)(''a.go.7'' \<mapsto> \<lparr>content = exSrc, mode = 0x1A4\<rparr>)"
  have fs: "fsys ?s = oneFile ''a.go'' exSrc" by (simp add: initState_def)
  have rd: "readSource exLib ?env ''a.go'' (fsys ?s) = Inr (0x1A4, exSrc, ?tree)"
    by code_simp
  have ap: "applyReplacers exLib ?tree (collectReplacers exLib (replaceRules ?s) (astImports exLib ?tree))
      = Inr ?tree"
    by code_simp
  have re: "render exLib ?tree = Inr exSrc"
    by code_simp
  have tf: "TempFile exLib ?env (fsys ?s) (filepathDir exLib (''a.go'' @ ''.''))
       (filepathBase exLib (''a.go'' @ ''.''))
     = Inr (''a.go.7'', (oneFile ''a.go'' exSrc)(''a.go.7'' \<mapsto> \<lparr>content = [], mode = 0x180\<rparr>))"
    using TempFile_first [of "fsys ?s" exLib "filepathDir exLib (''a.go'' @ ''.'')"
        "filepathBase exLib (''a.go'' @ ''.'')" ?env]
    by (simp add: initState_def oneFile_def exEnv_def faultsAt_def exLib_def exDir_def exBase_def exJoin_def)
  have bk: "backupFile exLib ?env (''a.go'' @ ''.'') exSrc 0x1A4 (fsys ?s) = (?fs1, ''a.go.7'', None)"
    using backupFile_created [OF tf, of exSrc "0x1A4"]
    by (simp add: fs exEnv_def faultsAt_def)
  have wf: "WriteFile ?env ''a.go'' exSrc 0x1A4 ?fs1
     = (?fs1(''a.go'' \<mapsto> \<lparr>content = [], mode = 0x1A4\<rparr>), Some (Error ''input/output error''))"
    by (simp add: WriteFile_def fileWrite_def fileClose_def exEnv_def faultsAt_def oneFile_def)
  have rn: "fails ?env OpRename ''a.go.7'' = None"
    by (simp add: exEnv_def faultsAt_def)
  show ?thesis
    using bk failed_write_restores [OF rd ap re bk wf rn]
    by simp
qed

subsection \<open>A file without a matching import\<close>

text \<open>Claim C3, as stated, fails: \<^verbatim>\<open>rewriteImport\<close> prints, formats and writes every
  file it parsed, whether a replacer was found or not. The import of \<^verbatim>\<open>fmt\<close> does not
  match the rule, the run of \<^verbatim>\<open>main\<close> succeeds, and the file's bytes change.\<close>

theorem no_match_reformats_counterexample:
  "exParse untidySrc = Inr \<lparr>pkgName = ''p'',
       fileImports = [\<lparr>specName = None, specPathValue = quote ''fmt''\<rparr>]\<rparr>
   \<and> collectReplacers exLib [(''github.com/foo/bar'', ''example.com/baz'')]
         [[\<lparr>specName = None, specPathValue = quote ''fmt''\<rparr>]] = []
   \<and> map_option content (fsys (initState (oneFile ''a.go'' untidySrc)) ''a.go'') = Some untidySrc
   \<and> map_option content
        (fsys (fst (main exLib (exEnv noFault True exWalk) ''.'' ''github.com/foo/bar''
                 ''example.com/baz'' (initState (oneFile ''a.go'' untidySrc)))) ''a.go'')
       = Some tidySrc
   \<and> tidySrc \<noteq> untidySrc"
  by code_simp

text \<open>Claim C3, amended. When no import of the file yields a replacer and the body of
  \<^verbatim>\<open>rewriteImport\<close> ends without an error, the file holds the formatted print of its
  syntax tree, with its mode as before, and no other path of the store has changed. Its
  bytes are the bytes before the run only if those were that formatted print already.\<close>

theorem no_match_reformats:
  assumes ok: "snd (rewriteImportBody lib env path s) = None"
    and f: "fsys s path = Some f"
    and pf: "parseSource lib (content f) = Inr tree"
    and nm: "collectReplacers lib (replaceRules s) (astImports lib tree) = []"
  shows "\<exists>bs. render lib tree = Inr bs
     \<and> fsys (fst (rewriteImport lib env path s)) = (fsys s)(path \<mapsto> f\<lparr>content := bs\<rparr>)"
proof -
  obtain perm src tree0 where rs: "readSource lib env path (fsys s) = Inr (perm, src, tree0)"
    using ok by (auto simp add: rewriteImportBody_def split: sum.splits)
  from readSource_ok [OF rs] f pf have t: "tree0 = tree" by auto
  have ap: "applyReplacers lib tree (collectReplacers lib (replaceRules s) (astImports lib tree))
      = Inr tree"
    by (simp add: nm)
  obtain bs where re: "render lib tree = Inr bs"
    using ok rs t ap by (auto simp add: rewriteImportBody_def split: sum.splits)
  have p: "persist lib env path src perm bs (fsys s)
      = (fst (persist lib env path src perm bs (fsys s)), None)"
    using ok rewriteImportBody_persist [OF rs [unfolded t] ap re]
    by (simp add: prod_eq_iff)
  from persist_ok [OF p f] re show ?thesis
    by (simp add: rewriteImport_fsys rewriteImportBody_persist [OF rs [unfolded t] ap re])
qed

theorem no_match_reformats_witness:
  "snd (rewriteImportBody exLib (exEnv noFault True []) ''a.go''
         (initState (oneFile ''a.go'' untidySrc))) = None
   \<and> exParse untidySrc = Inr \<lparr>pkgName = ''p'',
         fileImports = [\<lparr>specName = None, specPathValue = quote ''fmt''\<rparr>]\<rparr>
   \<and> fsys (fst (rewriteImport exLib (exEnv noFault True []) ''a.go''
         (initState (oneFile ''a.go'' untidySrc)))) = oneFile ''a.go'' tidySrc"
proof -
  let ?s = "initState (oneFile ''a.go'' untidySrc)"
  let ?f = "\<lparr>content = untidySrc, mode = 0x1A4\<rparr>"
  let ?tree = "\<lparr>pkgName = ''p'', fileImports = [\<lparr>specName = None, specPathValue = quote ''fmt''\<rparr>]\<rparr>"
  have ok: "snd (rewriteImportBody exLib (exEnv noFault True []) ''a.go'' ?s) = None"
    by code_simp
  have f: "fsys ?s ''a.go'' = Some ?f"
    by (simp add: initState_def oneFile_def)
  have pe: "exParse untidySrc = Inr ?tree"
    by code_simp
  have pf: "parseSource exLib (content ?f) = Inr ?tree"
    using pe by (simp add: exLib_def)
  have nm: "collectReplacers exLib (replaceRules ?s) (astImports exLib ?tree) = []"
    by (simp add: initState_def collectReplacers_no_rules)
  have re: "render exLib ?tree = Inr tidySrc"
    by code_simp
  have "(fsys ?s)(''a.go'' \<mapsto> ?f\<lparr>content := tidySrc\<rparr>) = oneFile ''a.go'' tidySrc"
    by (auto simp add: initState_def oneFile_def fun_eq_iff)
  then show ?thesis
    using ok pe re no_match_reformats [OF ok f pf nm]
    by auto
qed

subsection \<open>The rule given on the command line\<close>

text \<open>Claim C1 does not hold of the program: \<^verbatim>\<open>main\<close> checks that \<^verbatim>\<open>-s\<close> and \<^verbatim>\<open>-r\<close>
  are given and then walks the tree without calling \<^verbatim>\<open>initReplaceRules\<close>. Run with the
  rule of the specification's scenario on a file that imports
  \<^verbatim>\<open>github.com/foo/bar/sub\<close> as \<^verbatim>\<open>x\<close>, it exits with status 0, logs nothing and leaves
  the import as it was. Started in the state that \<^verbatim>\<open>initReplaceRules\<close> would have set,
  the same run writes the import of \<^verbatim>\<open>example.com/baz/sub\<close> as \<^verbatim>\<open>x\<close>.\<close>

theorem main_never_rewrites:
  "snd (main exLib (exEnv noFault True exWalk) ''.'' ''github.com/foo/bar'' ''example.com/baz''
         (initState (oneFile ''a.go'' exSrc))) = 0
   \<and> logs (fst (main exLib (exEnv noFault True exWalk) ''.'' ''github.com/foo/bar''
         ''example.com/baz'' (initState (oneFile ''a.go'' exSrc)))) = []
   \<and> map_option content
        (fsys (fst (main exLib (exEnv noFault True exWalk) ''.'' ''github.com/foo/bar''
                 ''example.com/baz'' (initState (oneFile ''a.go'' exSrc)))) ''a.go'')
       = Some exSrc
   \<and> map_option content
        (fsys (fst (main exLib (exEnv noFault True exWalk) ''.'' ''github.com/foo/bar''
                 ''example.com/baz''
                 (initReplaceRules ''github.com/foo/bar'' ''example.com/baz''
                    (initState (oneFile ''a.go'' exSrc))))) ''a.go'')
       = Some newSrc"
  by code_simp

subsection \<open>A run when no system call fails\<close>




















subsection \<open>The library instance is stable\<close>

















subsection \<open>Two runs in succession\<close>




end
